theory Spec2Isabelle
  imports Complex_Main
begin

section \<open>Strings and paths\<close>

text \<open>
  Python strings are modelled as \<^typ>\<open>string\<close>, one \<^typ>\<open>char\<close> per code point
  (code points below 256). \<open>sep.join(xs)\<close> is \<open>join sep xs\<close>.
\<close>

fun join :: "string \<Rightarrow> string list \<Rightarrow> string" where
  "join sep [] = []"
| "join sep [x] = x"
| "join sep (x # y # ys) = x @ sep @ join sep (y # ys)"

text \<open>\<open>str.isspace\<close> on one character and \<open>str.strip()\<close>.\<close>

definition isspace :: "char \<Rightarrow> bool" where
  "isspace c = ((of_char c :: nat) \<in> {9, 10, 11, 12, 13, 28, 29, 30, 31, 32, 133, 160})"

definition strip :: "string \<Rightarrow> string" where
  "strip s = rev (dropWhile isspace (rev (dropWhile isspace s)))"

text \<open>\<open>s.rfind(c)\<close>: the highest index of \<open>c\<close> in \<open>s\<close>, or \<open>-1\<close>.\<close>

fun rfind :: "string \<Rightarrow> char \<Rightarrow> int" where
  "rfind [] c = - 1"
| "rfind (x # xs) c =
     (let r = rfind xs c in if 0 \<le> r then r + 1 else if x = c then 0 else - 1)"

text \<open>
  A \<open>pathlib\<close> path is the list of its \<open>parts\<close>; an absolute POSIX path starts with
  the part \<open>/\<close>. \<open>name\<close>, \<open>suffix\<close> and \<open>stem\<close> follow \<open>PurePath\<close>
  (CPython up to 3.13): the suffix starts at the last dot of the name, unless that dot is
  the first or the last character.
\<close>

type_synonym Path = "string list"

definition name :: "Path \<Rightarrow> string" where
  "name p = (if p = [] \<or> p = [''/''] then [] else last p)"

definition suffix :: "Path \<Rightarrow> string" where
  "suffix p =
     (let nm = name p; i = rfind nm CHR ''.''
      in if 0 < i \<and> i < int (length nm) - 1 then drop (nat i) nm else [])"

definition stem :: "Path \<Rightarrow> string" where
  "stem p =
     (let nm = name p; i = rfind nm CHR ''.''
      in if 0 < i \<and> i < int (length nm) - 1 then take (nat i) nm else nm)"

text \<open>\<open>str(path)\<close>\<close>

definition path_str :: "Path \<Rightarrow> string" where
  "path_str p =
     (case p of
        [] \<Rightarrow> ''.''
      | x # xs \<Rightarrow> if x = ''/'' then ''/'' @ join ''/'' xs else join ''/'' p)"

datatype error = ValueError string

text \<open>\<open>file_path.relative_to(repo_path)\<close> raises \<open>ValueError\<close> unless the file is under the root.\<close>

fun relative_to :: "Path \<Rightarrow> Path \<Rightarrow> error + Path" where
  "relative_to p [] = Inr p"
| "relative_to [] (r # rs) = Inl (ValueError ''is not in the subpath'')"
| "relative_to (x # xs) (r # rs) =
     (if x = r then relative_to xs rs else Inl (ValueError ''is not in the subpath''))"

section \<open>Discovery (\<open>ingestion/discovery.py\<close>)\<close>

text \<open>The exclusion and classification tables; Python sets, listed (only membership is used).\<close>

definition DEFAULT_EXCLUDE_DIRS :: "string list" where
  "DEFAULT_EXCLUDE_DIRS =
     [''.git'', ''__pycache__'', ''.venv'', ''venv'', ''node_modules'', ''.pytest_cache'',
      ''.mypy_cache'', ''.tox'', ''dist'', ''build'', ''env'', ''.eggs'', ''*.egg-info'',
      ''.ruff_cache'', ''.hypothesis'']"

definition PYTHON_EXTS :: "string list" where
  "PYTHON_EXTS = [''.py'']"

definition DOC_EXTS :: "string list" where
  "DOC_EXTS = [''.md'', ''.rst'', ''.txt'']"

definition CONFIG_FILES :: "string list" where
  "CONFIG_FILES =
     [''pyproject.toml'', ''setup.py'', ''setup.cfg'', ''requirements.txt'', ''Pipfile'',
      ''poetry.lock'', ''tox.ini'', ''pytest.ini'']"

datatype Kind = python | documentation | configuration

record FileKind =
  path :: Path
  kind :: Kind

text \<open>
  One entry of \<open>repo_path.rglob("*")\<close>: the path (with the root's parts in front) and what
  \<open>is_file()\<close> answers for it.
\<close>

record entry =
  entry_path :: Path
  is_file :: bool

text \<open>The loop body of \<open>discover_files\<close>, over the entries in the order \<open>rglob\<close> yields them.\<close>

fun discover_loop :: "string list \<Rightarrow> entry list \<Rightarrow> FileKind list" where
  "discover_loop excludes [] = []"
| "discover_loop excludes (e # es) =
     (if list_ex (\<lambda>excl. excl \<in> set (entry_path e)) excludes then discover_loop excludes es
      else if \<not> is_file e then discover_loop excludes es
      else if suffix (entry_path e) \<in> set PYTHON_EXTS
        then \<lparr>path = entry_path e, kind = python\<rparr> # discover_loop excludes es
      else if suffix (entry_path e) \<in> set DOC_EXTS
        then \<lparr>path = entry_path e, kind = documentation\<rparr> # discover_loop excludes es
      else if name (entry_path e) \<in> set CONFIG_FILES
        then \<lparr>path = entry_path e, kind = configuration\<rparr> # discover_loop excludes es
      else discover_loop excludes es)"

text \<open>\<open>extra_excludes\<close> defaults to \<open>None\<close>; \<open>None\<close> and the empty list add nothing.\<close>

definition discover_files :: "entry list \<Rightarrow> string list option \<Rightarrow> FileKind list" where
  "discover_files rglob extra_excludes =
     discover_loop
       (DEFAULT_EXCLUDE_DIRS @ (case extra_excludes of None \<Rightarrow> [] | Some xs \<Rightarrow> xs)) rglob"

definition compute_module_path :: "Path \<Rightarrow> Path \<Rightarrow> error + string" where
  "compute_module_path file_path repo_path =
     (case relative_to file_path repo_path of
        Inl e \<Rightarrow> Inl e
      | Inr rel_path \<Rightarrow>
          (let parts = butlast rel_path;
               parts = (if stem rel_path \<noteq> ''__init__'' then parts @ [stem rel_path] else parts)
           in Inr (if parts \<noteq> [] then join ''.'' parts else stem rel_path)))"

section \<open>Structural extractor (\<open>ingestion/parser.py\<close>)\<close>

text \<open>
  The concrete syntax tree, as far as the extractor reads it. An expression is a name, a
  dotted attribute access, or anything else.
\<close>

datatype expr = Name string | Attribute expr string | OtherExpr

text \<open>
  \<open>_render_attribute\<close>: the loop walks down the \<open>value\<close> chain while it is an attribute
  and puts each \<open>attr\<close> in front; a name at the bottom comes first.
\<close>

fun attribute_prefix :: "expr \<Rightarrow> string list" where
  "attribute_prefix (Attribute v a) = attribute_prefix v @ [a]"
| "attribute_prefix (Name n) = [n]"
| "attribute_prefix OtherExpr = []"

definition render_attribute :: "expr \<Rightarrow> string \<Rightarrow> string" where
  "render_attribute v attr = join ''.'' (attribute_prefix v @ [attr])"

text \<open>
  A decorator expression is a name, an attribute, a call of some callee, or something
  else, which carries the text \<open>str(d.decorator)\<close>. A base is a name or carries
  \<open>str(arg.value)\<close>. A return annotation is a name, an attribute, or carries its source
  text (\<open>code_for_node\<close>).
\<close>

datatype decorator = DecName string | DecAttribute expr string | DecCall expr | DecOther string

datatype base_arg = BaseName string | BaseOther string

datatype annotation = AnnName string | AnnAttribute expr string | AnnOther string

text \<open>
  A parameter node is its \<open>name.value\<close>. \<open>star_arg\<close> is a named parameter (\<open>*args\<close>),
  the bare separator \<open>*\<close> (\<open>ParamStar\<close>), or the sentinel \<open>MaybeSentinel.DEFAULT\<close> of
  a parameter list without any star.
\<close>

datatype Param = Param string

fun param_value :: "Param \<Rightarrow> string" where
  "param_value (Param n) = n"

datatype star_arg = MaybeSentinel_DEFAULT | ParamStar | StarParam Param

record Parameters =
  params :: "Param list"
  star_arg :: star_arg
  kwonly_params :: "Param list"
  star_kwarg :: "Param option"
  posonly_params :: "Param list"

text \<open>
  A definition node: \<open>fd_docstring\<close> is \<open>get_docstring()\<close>, \<open>fd_code\<close> is
  \<open>module.code_for_node(node)\<close>, \<open>fd_pos\<close> the start and end line of the position
  metadata (\<open>None\<close> when the lookup raises).
\<close>

record FunctionDef_node =
  fd_name :: string
  fd_asynchronous :: bool
  fd_params :: Parameters
  fd_returns :: "annotation option"
  fd_decorators :: "decorator list"
  fd_docstring :: "string option"
  fd_code :: string
  fd_pos :: "(nat \<times> nat) option"

record ClassDef_node =
  cd_name :: string
  cd_bases :: "base_arg list"
  cd_decorators :: "decorator list"
  cd_docstring :: "string option"
  cd_code :: string
  cd_pos :: "(nat \<times> nat) option"

text \<open>
  A node with its children in visiting order. \<open>Call\<close> carries the callee expression and
  the start line of its position (\<open>None\<close> when the lookup raises); \<open>Other\<close> is any other
  node (a statement block, an expression).
\<close>

datatype node =
    ClassDef ClassDef_node "node list"
  | FunctionDef FunctionDef_node "node list"
  | Call expr "nat option" "node list"
  | Other "node list"

text \<open>The dictionaries the extractor builds for a function and for a class.\<close>

record fn =
  fn_name :: string
  fn_docstring :: string
  fn_signature :: string
  fn_decorators :: "string list"
  fn_parameters :: "string list"
  fn_return_annotation :: "string option"
  fn_code_body :: string
  fn_pos :: "(nat \<times> nat) option"

record cls =
  cls_name :: string
  cls_docstring :: string
  cls_bases :: "string list"
  cls_decorators :: "string list"
  cls_methods :: "fn list"
  cls_code_body :: string
  cls_pos :: "(nat \<times> nat) option"

record call =
  caller :: string
  callee :: string
  line :: nat

text \<open>The decorator loop, the same in \<open>visit_ClassDef\<close> and \<open>visit_FunctionDef\<close>.\<close>

fun render_decorators :: "decorator list \<Rightarrow> string list" where
  "render_decorators [] = []"
| "render_decorators (DecName n # ds) = n # render_decorators ds"
| "render_decorators (DecAttribute v a # ds) = render_attribute v a # render_decorators ds"
| "render_decorators (DecCall (Name n) # ds) = n # render_decorators ds"
| "render_decorators (DecCall (Attribute v a) # ds) = render_attribute v a # render_decorators ds"
| "render_decorators (DecCall OtherExpr # ds) = render_decorators ds"
| "render_decorators (DecOther s # ds) = s # render_decorators ds"

text \<open>
  The parameter list of the signature (\<open># Build signature\<close>). Every \<open>star_arg\<close> value is
  truthy. A \<open>Param\<close> has a \<open>name\<close> that is a \<open>cst.Name\<close>; \<open>ParamStar\<close> has no
  attribute \<open>name\<close>; the sentinel is an \<open>Enum\<close> member, whose attribute \<open>name\<close> is the
  string \<open>DEFAULT\<close>, so the \<open>else\<close> branch formats it.
\<close>

definition build_params :: "Parameters \<Rightarrow> string list" where
  "build_params ps =
     (let params0 = [];
          params1 = (if params ps \<noteq> [] then params0 @ map param_value (params ps) else params0);
          params2 = (if kwonly_params ps \<noteq> []
                     then params1 @ [''*''] @ map param_value (kwonly_params ps) else params1);
          params3 = (case star_arg ps of
                       StarParam p \<Rightarrow> params2 @ [''*'' @ param_value p]
                     | ParamStar \<Rightarrow> params2
                     | MaybeSentinel_DEFAULT \<Rightarrow> params2 @ [''*'' @ ''DEFAULT'']);
          params4 = (case star_kwarg ps of
                       Some p \<Rightarrow> params3 @ [''**'' @ param_value p]
                     | None \<Rightarrow> params3)
      in params4)"

definition render_annotation :: "annotation option \<Rightarrow> string option" where
  "render_annotation r =
     (case r of
        None \<Rightarrow> None
      | Some (AnnName n) \<Rightarrow> Some n
      | Some (AnnAttribute v a) \<Rightarrow> Some (render_attribute v a)
      | Some (AnnOther code) \<Rightarrow> Some (strip code))"

text \<open>The dictionary \<open>fn\<close> that \<open>visit_FunctionDef\<close> builds from a definition node.\<close>

definition function_entity :: "FunctionDef_node \<Rightarrow> fn" where
  "function_entity n =
     (let decorators = render_decorators (fd_decorators n);
          doc = (case fd_docstring n of None \<Rightarrow> [] | Some d \<Rightarrow> d);
          is_async = fd_asynchronous n;
          params = build_params (fd_params n);
          ret_annotation = render_annotation (fd_returns n);
          sig = (if is_async then ''async '' else []) @ ''def '' @ fd_name n
                  @ ''('' @ join '', '' params @ '')'';
          sig = (case ret_annotation of
                   None \<Rightarrow> sig
                 | Some r \<Rightarrow> if r \<noteq> [] then sig @ '' -> '' @ r else sig);
          code_body = fd_code n;
          code_body = (if length code_body > 10000
                       then take 10000 code_body @ [CHR 0x0A] @ ''... (truncated)''
                       else code_body)
      in \<lparr>fn_name = fd_name n, fn_docstring = doc, fn_signature = sig,
          fn_decorators = decorators, fn_parameters = params,
          fn_return_annotation = ret_annotation, fn_code_body = code_body,
          fn_pos = fd_pos n\<rparr>)"

definition class_entity :: "ClassDef_node \<Rightarrow> cls" where
  "class_entity n =
     (let bases = map (\<lambda>arg. case arg of BaseName v \<Rightarrow> v | BaseOther s \<Rightarrow> s) (cd_bases n);
          decorators = render_decorators (cd_decorators n);
          doc = (case cd_docstring n of None \<Rightarrow> [] | Some d \<Rightarrow> d);
          code_body = cd_code n;
          code_body = (if length code_body > 10000
                       then take 10000 code_body @ [CHR 0x0A] @ ''... (truncated)''
                       else code_body)
      in \<lparr>cls_name = cd_name n, cls_docstring = doc, cls_bases = bases,
          cls_decorators = decorators, cls_methods = [], cls_code_body = code_body,
          cls_pos = cd_pos n\<rparr>)"

text \<open>
  The visitor's state. \<open>class_stack\<close> holds the very dictionaries that are in \<open>classes\<close>,
  so a method appended through the stack shows in \<open>classes\<close>: the stack is modelled as
  indices into \<open>classes\<close>. An index is pushed when its class is appended, and \<open>classes\<close>
  only grows, so every index on the stack is in range.
\<close>

record PythonExtractor =
  module_path :: string
  class_stack :: "nat list"
  function_stack :: "string list"
  classes :: "cls list"
  "functions" :: "fn list"
  calls :: "call list"

definition visit_ClassDef :: "ClassDef_node \<Rightarrow> PythonExtractor \<Rightarrow> PythonExtractor" where
  "visit_ClassDef n self =
     self\<lparr>classes := classes self @ [class_entity n],
          class_stack := class_stack self @ [length (classes self)]\<rparr>"

definition leave_ClassDef :: "PythonExtractor \<Rightarrow> PythonExtractor" where
  "leave_ClassDef self =
     (if class_stack self \<noteq> [] then self\<lparr>class_stack := butlast (class_stack self)\<rparr> else self)"

definition visit_FunctionDef :: "FunctionDef_node \<Rightarrow> PythonExtractor \<Rightarrow> PythonExtractor" where
  "visit_FunctionDef n self =
     (let fn = function_entity n;
          self = (if class_stack self \<noteq> []
                  then (let i = last (class_stack self); c = classes self ! i
                        in self\<lparr>classes := (classes self)[i := c\<lparr>cls_methods := cls_methods c @ [fn]\<rparr>]\<rparr>)
                  else self\<lparr>functions := functions self @ [fn]\<rparr>)
      in self\<lparr>function_stack := function_stack self @ [fd_name n]\<rparr>)"

definition leave_FunctionDef :: "PythonExtractor \<Rightarrow> PythonExtractor" where
  "leave_FunctionDef self =
     (if function_stack self \<noteq> []
      then self\<lparr>function_stack := butlast (function_stack self)\<rparr> else self)"

definition visit_Call :: "expr \<Rightarrow> nat option \<Rightarrow> PythonExtractor \<Rightarrow> PythonExtractor" where
  "visit_Call func pos_line self =
     (let callee_text = (case func of
                           Name v \<Rightarrow> Some v
                         | Attribute v a \<Rightarrow> Some (render_attribute v a)
                         | OtherExpr \<Rightarrow> None)
      in case callee_text of
           None \<Rightarrow> self
         | Some t \<Rightarrow>
             if t = [] then self
             else
               (let caller_id =
                      (if function_stack self \<noteq> []
                       then (if class_stack self \<noteq> []
                             then Some (module_path self @ '':''
                                        @ cls_name (classes self ! last (class_stack self)) @ ''.''
                                        @ last (function_stack self))
                             else Some (module_path self @ '':'' @ last (function_stack self)))
                       else None)
                in case (caller_id, pos_line) of
                     (Some c, Some l) \<Rightarrow>
                       if c \<noteq> [] \<and> l \<noteq> 0
                       then self\<lparr>calls := calls self @ [\<lparr>caller = c, callee = t, line = l\<rparr>]\<rparr>
                       else self
                   | _ \<Rightarrow> self))"

text \<open>The walk: \<open>visit_X\<close>, the children in order, \<open>leave_X\<close>.\<close>

fun visit :: "node \<Rightarrow> PythonExtractor \<Rightarrow> PythonExtractor"
  and visit_all :: "node list \<Rightarrow> PythonExtractor \<Rightarrow> PythonExtractor" where
  "visit (ClassDef n body) self = leave_ClassDef (visit_all body (visit_ClassDef n self))"
| "visit (FunctionDef n body) self = leave_FunctionDef (visit_all body (visit_FunctionDef n self))"
| "visit (Call func pos_line body) self = visit_all body (visit_Call func pos_line self)"
| "visit (Other body) self = visit_all body self"
| "visit_all [] self = self"
| "visit_all (n # ns) self = visit_all ns (visit n self)"

text \<open>
  A parsed module: its body, its docstring (empty when there is none) and its import
  statements as \<open>visit_Import\<close> and \<open>visit_ImportFrom\<close> render them.
\<close>

record Module =
  mod_body :: "node list"
  mod_docstring :: string
  mod_imports :: "string list"

record ParsedPython =
  pp_file_path :: string
  pp_module_path :: string
  pp_module_docstring :: string
  pp_imports :: "string list"
  pp_classes :: "cls list"
  pp_functions :: "fn list"
  pp_calls :: "call list"
  pp_source_code :: string

definition PythonExtractor_init :: "string \<Rightarrow> PythonExtractor" where
  "PythonExtractor_init mp =
     \<lparr>module_path = mp, class_stack = [], function_stack = [], classes = [], functions = [],
      calls = []\<rparr>"

text \<open>
  \<open>_parse_with_libcst\<close>: \<open>cst_parse\<close> is \<open>cst.parse_module\<close>, which raises on malformed
  source; every exception gives \<open>None\<close>.
\<close>

definition parse_with_libcst ::
    "(string \<Rightarrow> string + Module) \<Rightarrow> string \<Rightarrow> Path \<Rightarrow> Path \<Rightarrow> ParsedPython option" where
  "parse_with_libcst cst_parse source fp repo_path =
     (case cst_parse source of
        Inl e \<Rightarrow> None
      | Inr cst_module \<Rightarrow>
          (case relative_to fp repo_path of
             Inl e \<Rightarrow> None
           | Inr rel \<Rightarrow>
               (case compute_module_path fp repo_path of
                  Inl e \<Rightarrow> None
                | Inr mp \<Rightarrow>
                    (let extractor = visit_all (mod_body cst_module) (PythonExtractor_init mp)
                     in Some \<lparr>pp_file_path = path_str rel, pp_module_path = mp,
                              pp_module_docstring = mod_docstring cst_module,
                              pp_imports = mod_imports cst_module,
                              pp_classes = classes extractor,
                              pp_functions = functions extractor,
                              pp_calls = calls extractor,
                              pp_source_code = source\<rparr>))))"

section \<open>Chunk assembly (\<open>ingestion/messages.py\<close>)\<close>

text \<open>\<open>str(n)\<close> for a natural number.\<close>

fun str_nat :: "nat \<Rightarrow> string" where
  "str_nat n =
     (if n < 10 then [char_of (48 + n)] else str_nat (n div 10) @ [char_of (48 + n mod 10)])"

declare str_nat.simps [simp del]

record ConversationMessageMeta =
  speaker :: string
  recipients :: "string list"

record CodeMessage =
  text_chunks :: "string list"
  metadata :: ConversationMessageMeta
  tags :: "string list"

text \<open>
  The facts of an analysis that chunk assembly reads. A value of \<open>type_annotations\<close> is a
  dictionary: \<open>declared_type\<close> is \<open>None\<close> when the key is absent or its value is
  \<open>None\<close>, \<open>inferred_types\<close> is \<open>None\<close> when the key is absent.
\<close>

record type_info =
  declared_type :: "string option"
  inferred_types :: "string list option"

record reference =
  ref_line :: "nat option"
  ref_column :: "nat option"
  ref_context :: string

record JediFacts =
  type_annotations :: "string \<rightharpoonup> type_info"
  references :: "string \<rightharpoonup> reference list"
  definitions :: "string \<rightharpoonup> string"

record JediAnalysis = JediFacts +
  ja_file_path :: string
  ja_module_path :: string

text \<open>The object with three empty dictionaries that stands in for a missing analysis.\<close>

definition EmptyJediAnalysis :: JediFacts where
  "EmptyJediAnalysis =
     \<lparr>type_annotations = Map.empty, references = Map.empty, definitions = Map.empty\<rparr>"

definition create_module_message :: "ParsedPython \<Rightarrow> string option \<Rightarrow> CodeMessage" where
  "create_module_message parsed project_name =
     (let summary_text =
            (if pp_module_docstring parsed \<noteq> []
             then ''Module docstring:'' @ [CHR 0x0A] @ strip (pp_module_docstring parsed)
             else ''Module docstring: (none provided)'');
          detail_sections =
            (if pp_imports parsed \<noteq> []
             then [''Imports:'' @ [CHR 0x0A] @ join [CHR 0x0A] (pp_imports parsed)] else []);
          class_names = map cls_name (pp_classes parsed);
          func_names = map fn_name (pp_functions parsed);
          overview_parts =
            (if class_names \<noteq> [] then [''Classes: '' @ join '', '' class_names] else [])
            @ (if func_names \<noteq> [] then [''Functions: '' @ join '', '' func_names] else []);
          detail_sections =
            (if overview_parts \<noteq> []
             then detail_sections @ [''Overview:'' @ [CHR 0x0A] @ join [CHR 0x0A] overview_parts]
             else detail_sections);
          detail_text = join [CHR 0x0A, CHR 0x0A] (filter (\<lambda>s. strip s \<noteq> []) detail_sections);
          detail_text =
            (if detail_text = [] then ''No imports or symbol overview available.'' else detail_text);
          code_text = pp_source_code parsed;
          code_text =
            (if code_text \<noteq> [] \<and> length code_text > 50000
             then take 50000 code_text @ [CHR 0x0A] @ ''... (truncated)'' else code_text);
          code_text = (if strip code_text = [] then ''Module source unavailable.'' else code_text)
      in \<lparr>text_chunks = [summary_text, detail_text, code_text],
          metadata = \<lparr>speaker = (if pp_module_path parsed \<noteq> [] then pp_module_path parsed
                                   else pp_file_path parsed),
                      recipients = []\<rparr>,
          tags = [''module'', ''python'', (case project_name of None \<Rightarrow> [] | Some n \<Rightarrow> n)]\<rparr>)"

text \<open>\<open>[t for t in type_info.get("inferred_types", []) if t]\<close>\<close>

definition truthy_inferred :: "type_info \<Rightarrow> string list" where
  "truthy_inferred ti =
     filter (\<lambda>t. t \<noteq> []) (case inferred_types ti of None \<Rightarrow> [] | Some ts \<Rightarrow> ts)"

text \<open>The loop that collects \<open>param_info\<close>, the same for a method and for a function.\<close>

fun param_info :: "JediFacts \<Rightarrow> string \<Rightarrow> string list \<Rightarrow> string list" where
  "param_info ja nm [] = []"
| "param_info ja nm (param # rest) =
     (case type_annotations ja (nm @ ''.'' @ param) of
        None \<Rightarrow> param_info ja nm rest
      | Some type_data \<Rightarrow>
          (let inferred = truthy_inferred type_data
           in if inferred \<noteq> []
              then (param @ '': '' @ join '', '' inferred) # param_info ja nm rest
              else param_info ja nm rest))"

text \<open>The body of the loop over the classes, up to the class message.\<close>

definition class_message :: "JediFacts \<Rightarrow> ParsedPython \<Rightarrow> cls \<Rightarrow> CodeMessage" where
  "class_message ja parsed c =
     (let summary_bits =
            (if cls_docstring c \<noteq> [] \<and> strip (cls_docstring c) \<noteq> []
             then [strip (cls_docstring c)] else []);
          cls_key = pp_module_path parsed @ ''.'' @ cls_name c;
          summary_bits =
            (case type_annotations ja cls_key of
               None \<Rightarrow> summary_bits
             | Some ti \<Rightarrow>
                 (let inferred = truthy_inferred ti
                  in if inferred \<noteq> []
                     then summary_bits @ [''Type hints: '' @ join '', '' inferred]
                     else summary_bits));
          summary_bits =
            (case references ja cls_key of
               None \<Rightarrow> summary_bits
             | Some refs \<Rightarrow>
                 summary_bits
                 @ [''Referenced '' @ str_nat (length refs) @ '' time(s) in codebase'']);
          summary_bits =
            (if cls_decorators c \<noteq> []
             then summary_bits
                  @ [''Decorators: '' @ join '', '' (filter (\<lambda>d. d \<noteq> []) (cls_decorators c))]
             else summary_bits);
          summary_text = join [CHR 0x0A, CHR 0x0A] (filter (\<lambda>bit. bit \<noteq> []) summary_bits);
          summary_text =
            (if summary_text = [] then ''Class '' @ cls_name c @ '' summary unavailable.''
             else summary_text);
          bases_str =
            (if cls_bases c \<noteq> [] then ''('' @ join '', '' (cls_bases c) @ '')'' else []);
          signature_text = strip (''class '' @ cls_name c @ bases_str);
          signature_text =
            (if signature_text = [] then ''class '' @ cls_name c else signature_text);
          code_text = cls_code_body c;
          code_text =
            (if strip code_text = [] then ''class '' @ cls_name c @ '' body unavailable.''
             else code_text)
      in \<lparr>text_chunks = [summary_text, signature_text, code_text],
          metadata = \<lparr>speaker = pp_module_path parsed @ '':'' @ cls_name c, recipients = []\<rparr>,
          tags = [''class'', ''python'', cls_name c, pp_module_path parsed]\<rparr>)"

definition method_message :: "JediFacts \<Rightarrow> ParsedPython \<Rightarrow> cls \<Rightarrow> fn \<Rightarrow> CodeMessage" where
  "method_message ja parsed c method =
     (let summary_bits =
            (if fn_docstring method \<noteq> [] \<and> strip (fn_docstring method) \<noteq> []
             then [strip (fn_docstring method)] else []);
          param_info = param_info ja (fn_name method) (fn_parameters method);
          summary_bits =
            (if param_info \<noteq> []
             then summary_bits
                  @ [''Inferred parameter types:'' @ [CHR 0x0A] @ join [CHR 0x0A] param_info]
             else summary_bits);
          summary_text = join [CHR 0x0A, CHR 0x0A] (filter (\<lambda>bit. bit \<noteq> []) summary_bits);
          summary_text =
            (if summary_text = [] then ''Method '' @ fn_name method @ '' summary unavailable.''
             else summary_text);
          signature_text =
            (if strip (fn_signature method) \<noteq> [] then strip (fn_signature method)
             else fn_name method);
          code_text = fn_code_body method;
          code_text =
            (if strip code_text = [] then ''Method '' @ fn_name method @ '' body unavailable.''
             else code_text)
      in \<lparr>text_chunks = [summary_text, signature_text, code_text],
          metadata = \<lparr>speaker = pp_module_path parsed @ '':'' @ cls_name c @ ''.'' @ fn_name method,
                      recipients = []\<rparr>,
          tags = [''method'', ''python'', fn_name method, cls_name c]\<rparr>)"

definition function_message :: "JediFacts \<Rightarrow> ParsedPython \<Rightarrow> fn \<Rightarrow> CodeMessage" where
  "function_message ja parsed func =
     (let summary_bits =
            (if fn_docstring func \<noteq> [] \<and> strip (fn_docstring func) \<noteq> []
             then [strip (fn_docstring func)] else []);
          param_info = param_info ja (fn_name func) (fn_parameters func);
          summary_bits =
            (if param_info \<noteq> []
             then summary_bits
                  @ [''Inferred parameter types:'' @ [CHR 0x0A] @ join [CHR 0x0A] param_info]
             else summary_bits);
          return_key = fn_name func @ ''.__return__'';
          summary_bits =
            (case type_annotations ja return_key of
               None \<Rightarrow> summary_bits
             | Some ret_data \<Rightarrow>
                 (case declared_type ret_data of
                    None \<Rightarrow> summary_bits
                  | Some t \<Rightarrow>
                      if t \<noteq> [] then summary_bits @ [''Return type: '' @ t] else summary_bits));
          summary_text = join [CHR 0x0A, CHR 0x0A] (filter (\<lambda>bit. bit \<noteq> []) summary_bits);
          summary_text =
            (if summary_text = [] then ''Function '' @ fn_name func @ '' summary unavailable.''
             else summary_text);
          signature_text =
            (if strip (fn_signature func) \<noteq> [] then strip (fn_signature func)
             else fn_name func);
          code_text = fn_code_body func;
          code_text =
            (if strip code_text = [] then ''Function '' @ fn_name func @ '' body unavailable.''
             else code_text)
      in \<lparr>text_chunks = [summary_text, signature_text, code_text],
          metadata = \<lparr>speaker = pp_module_path parsed @ '':'' @ fn_name func, recipients = []\<rparr>,
          tags = [''function'', ''python'', fn_name func, pp_module_path parsed]\<rparr>)"

text \<open>
  \<open>create_entity_messages_with_jedi\<close>: a missing analysis is replaced by the empty
  stand-in; then, for every class, its message and the messages of its methods, and after
  the classes the messages of the functions.
\<close>

definition create_entity_messages_with_jedi ::
    "ParsedPython \<Rightarrow> JediAnalysis option \<Rightarrow> string option \<Rightarrow> CodeMessage list" where
  "create_entity_messages_with_jedi parsed jedi_analysis project_name =
     (let ja = (case jedi_analysis of
                  None \<Rightarrow> EmptyJediAnalysis
                | Some j \<Rightarrow> JediFacts.truncate j)
      in concat (map (\<lambda>c. class_message ja parsed c # map (method_message ja parsed c) (cls_methods c))
                   (pp_classes parsed))
         @ map (function_message ja parsed) (pp_functions parsed))"

section \<open>Pipeline orchestrator (\<open>ingestion/runner.py\<close>)\<close>

datatype status = pending | active | complete | error

text \<open>
  A stage state is its status and its progress in percent, as an exact number; the detail
  text, display text for the consumer, is left out.
\<close>

record StageState =
  status :: status
  progress :: real

text \<open>The result of a run; the duration and the location of the database are left out.\<close>

record IngestResult =
  ir_files_processed :: nat
  ir_messages_created :: nat
  ir_symbols_indexed :: nat
  ir_semrefs_added :: nat
  ir_failures :: "(string \<times> string) list"

text \<open>
  What the generator yields: \<open>IngestionProgress stage state\<close>, \<open>IngestionComplete result\<close>,
  \<open>IngestionError error stage\<close>.
\<close>

datatype event =
    IngestionProgress string StageState
  | IngestionComplete IngestResult
  | IngestionError string string

text \<open>
  Everything outside the run that it reads: whether the root exists; the listing of the
  tree, or the text of the exception its traversal raises; reading a file; the parser;
  the type analysis of a parsed file, which returns \<open>None\<close> on failure; opening the
  conversation (\<open>Inl\<close>: it raises); appending the batch with a given number (\<open>Inl\<close>: it
  raises, \<open>Inr\<close>: \<open>semrefs_added\<close> and \<open>messages_added\<close>); and the cancellation event,
  if one is given, as the answer of \<open>is_set()\<close> at each successive poll.
\<close>

record world =
  path_exists :: bool
  rglob :: "string + entry list"
  read_text :: "Path \<Rightarrow> string + string"
  cst_parse :: "string \<Rightarrow> string + Module"
  analyze_python_file_with_jedi :: "Path \<Rightarrow> ParsedPython \<Rightarrow> JediAnalysis option"
  create_conversation :: "string + unit"
  add_messages_with_indexing :: "nat \<Rightarrow> CodeMessage list \<Rightarrow> string + (nat \<times> nat)"
  cancel_event :: "(nat \<Rightarrow> bool) option"

text \<open>
  The state of a run: the events yielded so far, the number of polls of the cancellation
  event, and the batches handed to the conversation so far.
\<close>

record run_state =
  events :: "event list"
  polls :: nat
  appended :: "CodeMessage list list"

text \<open>
  How a piece of the generator's body ends: it goes on with a value, it returns (the
  generator ends), or an exception leaves it.
\<close>

datatype 'a flow = Next 'a | Return | Raise string

definition then_do ::
    "'a flow \<times> run_state \<Rightarrow> ('a \<Rightarrow> run_state \<Rightarrow> 'b flow \<times> run_state) \<Rightarrow> 'b flow \<times> run_state" where
  "then_do m f =
     (case m of
        (Next x, st) \<Rightarrow> f x st
      | (Return, st) \<Rightarrow> (Return, st)
      | (Raise e, st) \<Rightarrow> (Raise e, st))"

definition emit :: "event \<Rightarrow> run_state \<Rightarrow> run_state" where
  "emit ev st = st\<lparr>events := events st @ [ev]\<rparr>"

text \<open>\<open>cancel_event and cancel_event.is_set()\<close>\<close>

definition is_cancelled :: "world \<Rightarrow> run_state \<Rightarrow> bool \<times> run_state" where
  "is_cancelled w st =
     (case cancel_event w of
        None \<Rightarrow> (False, st)
      | Some is_set \<Rightarrow> (is_set (polls st), st\<lparr>polls := polls st + 1\<rparr>))"

text \<open>\<open>parse_python_file\<close>: reading or parsing may fail; every failure gives \<open>None\<close>.\<close>

definition parse_python_file :: "world \<Rightarrow> Path \<Rightarrow> Path \<Rightarrow> ParsedPython option" where
  "parse_python_file w fp repo_path =
     (case read_text w fp of
        Inl e \<Rightarrow> None
      | Inr source \<Rightarrow> parse_with_libcst (cst_parse w) source fp repo_path)"

definition kind_str :: "Kind \<Rightarrow> string" where
  "kind_str k =
     (case k of python \<Rightarrow> ''python'' | documentation \<Rightarrow> ''documentation''
      | configuration \<Rightarrow> ''configuration'')"

definition parse_text_file ::
    "world \<Rightarrow> Path \<Rightarrow> Path \<Rightarrow> Kind \<Rightarrow> string option \<Rightarrow> CodeMessage option" where
  "parse_text_file w fp repo_path k project_name =
     (case read_text w fp of
        Inl e \<Rightarrow> None
      | Inr content \<Rightarrow>
          if content = [] \<or> strip content = [] then None
          else
            (case relative_to fp repo_path of
               Inl e \<Rightarrow> None
             | Inr rel \<Rightarrow>
                 (let rel_path = path_str rel;
                      content = (if length content > 50000
                                 then take 50000 content @ [CHR 0x0A] @ ''... (truncated)''
                                 else content)
                  in Some \<lparr>text_chunks = [content],
                           metadata = \<lparr>speaker = rel_path, recipients = []\<rparr>,
                           tags = [kind_str k, suffix fp, rel_path]\<rparr>)))"

text \<open>
  The discovery phase: the event, the poll, \<open>discover_files(repo_path, [])\<close>, the event.
\<close>

definition stage_discovery :: "world \<Rightarrow> run_state \<Rightarrow> FileKind list flow \<times> run_state" where
  "stage_discovery w st =
     (let st = emit (IngestionProgress ''discovery'' \<lparr>status = active, progress = 0\<rparr>) st;
          (cancelled, st) = is_cancelled w st
      in if cancelled then (Return, st)
         else
           (case rglob w of
              Inl e \<Rightarrow> (Raise e, st)
            | Inr listing \<Rightarrow>
                (let files = discover_files listing (Some []);
                     st = emit (IngestionProgress ''discovery''
                                  \<lparr>status = complete, progress = 100\<rparr>) st
                 in (Next files, st))))"

text \<open>
  The loop over the gathered parse results, each with its file; \<open>n\<close> is
  \<open>len(python_files)\<close> and \<open>i\<close> the index.
\<close>

fun parsing_loop ::
    "world \<Rightarrow> nat \<Rightarrow> nat \<Rightarrow> (Path \<times> ParsedPython option) list
     \<Rightarrow> (Path \<times> ParsedPython) list \<Rightarrow> (string \<times> string) list \<Rightarrow> run_state
     \<Rightarrow> ((Path \<times> ParsedPython) list \<times> (string \<times> string) list) flow \<times> run_state" where
  "parsing_loop w n i [] all_parsed failures st = (Next (all_parsed, failures), st)"
| "parsing_loop w n i ((fp, result) # rest) all_parsed failures st =
     (let (cancelled, st) = is_cancelled w st
      in if cancelled then (Return, st)
         else
           (let all_parsed = (case result of Some r \<Rightarrow> all_parsed @ [(fp, r)] | None \<Rightarrow> all_parsed);
                failures = (case result of
                              Some r \<Rightarrow> failures
                            | None \<Rightarrow> failures @ [(path_str fp, ''Parse failed'')]);
                st = (if (i + 1) mod 50 = 0 \<or> int i = int n - 1
                      then emit (IngestionProgress ''parsing''
                                   \<lparr>status = active, progress = real (i + 1) / real n * 100\<rparr>) st
                      else st)
            in parsing_loop w n (i + 1) rest all_parsed failures st))"

definition stage_parsing ::
    "world \<Rightarrow> Path \<Rightarrow> FileKind list \<Rightarrow> run_state
     \<Rightarrow> ((Path \<times> ParsedPython) list \<times> (string \<times> string) list) flow \<times> run_state" where
  "stage_parsing w repo_path files st =
     (let st = emit (IngestionProgress ''parsing'' \<lparr>status = active, progress = 0\<rparr>) st;
          python_files = map path (filter (\<lambda>f. kind f = python) files);
          results = map (\<lambda>fp. parse_python_file w fp repo_path) python_files
      in then_do (parsing_loop w (length python_files) 0 (zip python_files results) [] [] st)
           (\<lambda>(all_parsed, failures) st.
              (Next (all_parsed, failures),
               emit (IngestionProgress ''parsing'' \<lparr>status = complete, progress = 100\<rparr>) st)))"

fun type_analysis_loop ::
    "world \<Rightarrow> nat \<Rightarrow> nat \<Rightarrow> JediAnalysis option list \<Rightarrow> JediAnalysis option list \<Rightarrow> run_state
     \<Rightarrow> JediAnalysis option list flow \<times> run_state" where
  "type_analysis_loop w n i [] all_jedi_analyses st = (Next all_jedi_analyses, st)"
| "type_analysis_loop w n i (jedi_result # rest) all_jedi_analyses st =
     (let (cancelled, st) = is_cancelled w st
      in if cancelled then (Return, st)
         else
           (let all_jedi_analyses = all_jedi_analyses @ [jedi_result];
                st = (if (i + 1) mod 25 = 0 \<or> int i = int n - 1
                      then emit (IngestionProgress ''type_analysis''
                                   \<lparr>status = active, progress = real (i + 1) / real n * 100\<rparr>) st
                      else st)
            in type_analysis_loop w n (i + 1) rest all_jedi_analyses st))"

text \<open>The phase is entered only when some file was parsed.\<close>

definition stage_type_analysis ::
    "world \<Rightarrow> (Path \<times> ParsedPython) list \<Rightarrow> run_state
     \<Rightarrow> JediAnalysis option list flow \<times> run_state" where
  "stage_type_analysis w all_parsed st =
     (if all_parsed \<noteq> []
      then
        (let (cancelled, st) = is_cancelled w st
         in if cancelled then (Return, st)
            else
              (let st = emit (IngestionProgress ''type_analysis''
                                \<lparr>status = active, progress = 0\<rparr>) st;
                   jedi_results = map (\<lambda>(fp, parsed). analyze_python_file_with_jedi w fp parsed)
                                    all_parsed
               in then_do (type_analysis_loop w (length all_parsed) 0 jedi_results [] st)
                    (\<lambda>all_jedi_analyses st.
                       (Next all_jedi_analyses,
                        emit (IngestionProgress ''type_analysis''
                                \<lparr>status = complete, progress = 100\<rparr>) st))))
      else (Next [], st))"

text \<open>
  The loop over the parsed files, each with its analysis; \<open>n\<close> is \<open>len(all_parsed)\<close>. A
  message is kept when its list of chunks is not empty.
\<close>

fun python_messages_loop ::
    "world \<Rightarrow> string option \<Rightarrow> nat \<Rightarrow> nat \<Rightarrow> ((Path \<times> ParsedPython) \<times> JediAnalysis option) list
     \<Rightarrow> nat \<Rightarrow> CodeMessage list \<Rightarrow> run_state \<Rightarrow> (nat \<times> CodeMessage list) flow \<times> run_state" where
  "python_messages_loop w project_name n total_items [] processed all_messages st =
     (Next (processed, all_messages), st)"
| "python_messages_loop w project_name n total_items (((fp, parsed), jedi_analysis) # rest)
       processed all_messages st =
     (let (cancelled, st) = is_cancelled w st
      in if cancelled then (Return, st)
         else
           (let module_message = create_module_message parsed project_name;
                all_messages = (if text_chunks module_message \<noteq> []
                                then all_messages @ [module_message] else all_messages);
                entity_messages = create_entity_messages_with_jedi parsed jedi_analysis project_name;
                all_messages = all_messages @ filter (\<lambda>m. text_chunks m \<noteq> []) entity_messages;
                processed = processed + 1;
                st = (if processed mod 25 = 0 \<or> processed = n
                      then emit (IngestionProgress ''message_creation''
                                   \<lparr>status = active,
                                    progress = real processed / real total_items * 100\<rparr>) st
                      else st)
            in python_messages_loop w project_name n total_items rest processed all_messages st))"

fun text_files_loop ::
    "world \<Rightarrow> Path \<Rightarrow> string option \<Rightarrow> FileKind list \<Rightarrow> CodeMessage list \<Rightarrow> run_state
     \<Rightarrow> CodeMessage list flow \<times> run_state" where
  "text_files_loop w repo_path project_name [] all_messages st = (Next all_messages, st)"
| "text_files_loop w repo_path project_name (f # rest) all_messages st =
     (let (cancelled, st) = is_cancelled w st
      in if cancelled then (Return, st)
         else
           (let all_messages =
                  (if kind f = documentation \<or> kind f = configuration
                   then (case parse_text_file w (path f) repo_path (kind f) project_name of
                           None \<Rightarrow> all_messages
                         | Some msg \<Rightarrow>
                             if text_chunks msg \<noteq> [] then all_messages @ [msg] else all_messages)
                   else all_messages)
            in text_files_loop w repo_path project_name rest all_messages st))"

definition stage_message_creation ::
    "world \<Rightarrow> Path \<Rightarrow> string option \<Rightarrow> FileKind list \<Rightarrow> (Path \<times> ParsedPython) list
     \<Rightarrow> JediAnalysis option list \<Rightarrow> run_state \<Rightarrow> CodeMessage list flow \<times> run_state" where
  "stage_message_creation w repo_path project_name files all_parsed all_jedi_analyses st =
     (let (cancelled, st) = is_cancelled w st
      in if cancelled then (Return, st)
         else
           (let st = emit (IngestionProgress ''message_creation''
                             \<lparr>status = active, progress = 0\<rparr>) st;
                total_items = length all_parsed
                  + length (filter (\<lambda>f. kind f = documentation \<or> kind f = configuration) files)
            in then_do (python_messages_loop w project_name (length all_parsed) total_items
                          (zip all_parsed all_jedi_analyses) 0 [] st)
                 (\<lambda>(processed, all_messages) st.
                    then_do (text_files_loop w repo_path project_name files all_messages st)
                      (\<lambda>all_messages st.
                         (Next all_messages,
                          emit (IngestionProgress ''message_creation''
                                  \<lparr>status = complete, progress = 100\<rparr>) st)))))"

text \<open>
  The loop over the batches of 50 messages. \<open>appended\<close> records each call of
  \<open>add_messages_with_indexing\<close>, whether it returns or raises.
\<close>

function indexing_loop ::
    "world \<Rightarrow> nat \<Rightarrow> nat \<Rightarrow> CodeMessage list \<Rightarrow> nat \<Rightarrow> nat \<Rightarrow> run_state
     \<Rightarrow> (nat \<times> nat) flow \<times> run_state" where
  "indexing_loop w total_batches batch_num remaining semrefs_added messages_added_total st =
     (if remaining = [] then (Next (semrefs_added, messages_added_total), st)
      else
        (let (cancelled, st) = is_cancelled w st
         in if cancelled then (Return, st)
            else
              (let batch = take 50 remaining;
                   st = emit (IngestionProgress ''indexing''
                                \<lparr>status = active,
                                 progress = (real batch_num - 1) / real total_batches * 100\<rparr>) st;
                   st = st\<lparr>appended := appended st @ [batch]\<rparr>
               in case add_messages_with_indexing w batch_num batch of
                    Inl e \<Rightarrow> (Raise e, st)
                  | Inr (result_semrefs_added, result_messages_added) \<Rightarrow>
                      (let semrefs_added = semrefs_added + result_semrefs_added;
                           messages_added_total = messages_added_total + result_messages_added;
                           st = emit (IngestionProgress ''indexing''
                                        \<lparr>status = active,
                                         progress = real batch_num / real total_batches * 100\<rparr>) st
                       in indexing_loop w total_batches (batch_num + 1) (drop 50 remaining)
                            semrefs_added messages_added_total st))))"
  by pat_completeness auto
termination
  by (relation "measure (\<lambda>(w, total_batches, batch_num, remaining, rest). length remaining)") auto

declare indexing_loop.simps [simp del]

definition stage_indexing ::
    "world \<Rightarrow> FileKind list \<Rightarrow> (Path \<times> ParsedPython) list \<Rightarrow> (string \<times> string) list
     \<Rightarrow> CodeMessage list \<Rightarrow> run_state \<Rightarrow> unit flow \<times> run_state" where
  "stage_indexing w files all_parsed failures all_messages st =
     (let symbols_count =
            sum_list (map (\<lambda>(fp, p). length (pp_classes p) + length (pp_functions p)) all_parsed);
          st = emit (IngestionProgress ''indexing'' \<lparr>status = active, progress = 0\<rparr>) st
      in case create_conversation w of
           Inl e \<Rightarrow> (Raise e, st)
         | Inr conversation \<Rightarrow>
             (let batch_size = 50;
                  total_batches = (length all_messages + batch_size - 1) div batch_size
              in then_do (indexing_loop w total_batches 1 all_messages 0 0 st)
                   (\<lambda>(semrefs_added, messages_added_total) st.
                      (let st = emit (IngestionProgress ''indexing''
                                        \<lparr>status = complete, progress = 100\<rparr>) st;
                           st = emit (IngestionComplete
                                        \<lparr>ir_files_processed = length files,
                                         ir_messages_created = length all_messages,
                                         ir_symbols_indexed = symbols_count,
                                         ir_semrefs_added = semrefs_added,
                                         ir_failures = failures\<rparr>) st
                       in (Next (), st)))))"

text \<open>The body of the \<open>try\<close> block of \<open>run_ingestion\<close>.\<close>

definition run_body :: "world \<Rightarrow> Path \<Rightarrow> run_state \<Rightarrow> unit flow \<times> run_state" where
  "run_body w repo_path st =
     (if \<not> path_exists w
      then (Return,
            emit (IngestionError (''Repository path does not exist: '' @ path_str repo_path)
                    ''discovery'') st)
      else
        (let project_name = Some (name repo_path)
         in then_do (stage_discovery w st)
              (\<lambda>files st.
                 let (cancelled, st) = is_cancelled w st
                 in if cancelled then (Return, st)
                    else
                      then_do (stage_parsing w repo_path files st)
                        (\<lambda>(all_parsed, failures) st.
                           then_do (stage_type_analysis w all_parsed st)
                             (\<lambda>all_jedi_analyses st.
                                then_do (stage_message_creation w repo_path project_name files
                                           all_parsed all_jedi_analyses st)
                                  (\<lambda>all_messages st.
                                     let (cancelled, st) = is_cancelled w st
                                     in if cancelled then (Return, st)
                                        else stage_indexing w files all_parsed failures
                                               all_messages st))))))"

text \<open>
  \<open>run_ingestion\<close>: the body, and the handler \<open>except Exception as e\<close>, which yields
  one error event with the stage \<open>unknown\<close>. The result is the final state of the run.
\<close>

definition run_ingestion :: "world \<Rightarrow> Path \<Rightarrow> run_state" where
  "run_ingestion w repo_path =
     (case run_body w repo_path \<lparr>events = [], polls = 0, appended = []\<rparr> of
        (Raise e, st) \<Rightarrow> emit (IngestionError e ''unknown'') st
      | (r, st) \<Rightarrow> st)"

section \<open>The specification's wording, and inputs for evaluation\<close>

text \<open>
  The module path as the specification words it: the root-relative path as text, the
  extension dropped (for a package marker: the filename segment dropped), and every
  separator replaced by a dot.
\<close>

definition replace_sep :: "string \<Rightarrow> string" where
  "replace_sep s = map (\<lambda>c. if c = CHR ''/'' then CHR ''.'' else c) s"

definition drop_extension :: "Path \<Rightarrow> string" where
  "drop_extension rel = (let s = join ''/'' rel in take (length s - length (suffix rel)) s)"

definition spec_module_path :: "Path \<Rightarrow> string" where
  "spec_module_path rel =
     (if stem rel = ''__init__'' then replace_sep (join ''/'' (butlast rel))
      else replace_sep (drop_extension rel))"

text \<open>
  The parameters in the order the source declares them: positional parameters, the
  variadic-positional parameter or the bare separator, the keyword-only parameters, the
  variadic-keyword parameter.
\<close>

definition declared_order :: "Parameters \<Rightarrow> string list" where
  "declared_order ps =
     map param_value (params ps)
     @ (case star_arg ps of
          StarParam p \<Rightarrow> [''*'' @ param_value p]
        | ParamStar \<Rightarrow> [''*'']
        | MaybeSentinel_DEFAULT \<Rightarrow> [])
     @ map param_value (kwonly_params ps)
     @ (case star_kwarg ps of Some p \<Rightarrow> [''**'' @ param_value p] | None \<Rightarrow> [])"

text \<open>\<^verbatim>\<open>def f(a, *args, b): pass\<close>\<close>

definition def_f_a_args_b :: FunctionDef_node where
  "def_f_a_args_b =
     \<lparr>fd_name = ''f'', fd_asynchronous = False,
      fd_params = \<lparr>params = [Param ''a''], star_arg = StarParam (Param ''args''),
                   kwonly_params = [Param ''b''], star_kwarg = None, posonly_params = []\<rparr>,
      fd_returns = None, fd_decorators = [], fd_docstring = None,
      fd_code = ''def f(a, *args, b): pass'', fd_pos = Some (1, 1)\<rparr>"

text \<open>
  The names of the function definitions directly inside a body: not those inside a
  nested function or class.
\<close>

fun direct_defs :: "node \<Rightarrow> string list"
  and direct_defs_all :: "node list \<Rightarrow> string list" where
  "direct_defs (FunctionDef n body) = [fd_name n]"
| "direct_defs (ClassDef n body) = []"
| "direct_defs (Call func pos_line body) = direct_defs_all body"
| "direct_defs (Other body) = direct_defs_all body"
| "direct_defs_all [] = []"
| "direct_defs_all (n # ns) = direct_defs n @ direct_defs_all ns"

definition simple_def :: "string \<Rightarrow> FunctionDef_node" where
  "simple_def nm =
     \<lparr>fd_name = nm, fd_asynchronous = False,
      fd_params = \<lparr>params = [], star_arg = ParamStar, kwonly_params = [], star_kwarg = None,
                   posonly_params = []\<rparr>,
      fd_returns = None, fd_decorators = [], fd_docstring = None, fd_code = ''def'',
      fd_pos = None\<rparr>"

definition class_A :: ClassDef_node where
  "class_A = \<lparr>cd_name = ''A'', cd_bases = [], cd_decorators = [], cd_docstring = None,
              cd_code = ''class'', cd_pos = None\<rparr>"

text \<open>A class \<open>A\<close> whose method \<open>m\<close> defines a local function \<open>helper\<close>.\<close>

definition class_with_helper :: "node list" where
  "class_with_helper =
     [ClassDef class_A [FunctionDef (simple_def ''m'') [FunctionDef (simple_def ''helper'') []]]]"

definition long_def :: "nat \<Rightarrow> FunctionDef_node" where
  "long_def n = (simple_def ''g'')\<lparr>fd_code := replicate n CHR ''x''\<rparr>"

definition long_class :: "nat \<Rightarrow> ClassDef_node" where
  "long_class n = class_A\<lparr>cd_code := replicate n CHR ''x''\<rparr>"

definition setup_py_listing :: "entry list" where
  "setup_py_listing =
     [\<lparr>entry_path = [''/'', ''repo'', ''node_modules'', ''x.py''], is_file = True\<rparr>,
      \<lparr>entry_path = [''/'', ''repo'', ''setup.py''], is_file = True\<rparr>,
      \<lparr>entry_path = [''/'', ''repo'', ''tmp'', ''y.py''], is_file = True\<rparr>]"


definition is_error :: "event \<Rightarrow> bool" where
  "is_error ev = (case ev of IngestionError e s \<Rightarrow> True | _ \<Rightarrow> False)"

definition error_events :: "run_state \<Rightarrow> event list" where
  "error_events st = filter is_error (events st)"

definition event_stage :: "event \<Rightarrow> string option" where
  "event_stage ev =
     (case ev of IngestionProgress s x \<Rightarrow> Some s | IngestionComplete r \<Rightarrow> None
      | IngestionError e s \<Rightarrow> Some s)"

text \<open>The state a run starts in, and a world with an empty repository in which nothing fails.\<close>

definition init_state :: run_state where
  "init_state = \<lparr>events = [], polls = 0, appended = []\<rparr>"

definition quiet_world :: world where
  "quiet_world =
     \<lparr>path_exists = True, rglob = Inr [], read_text = (\<lambda>p. Inr []),
      cst_parse = (\<lambda>s. Inr \<lparr>mod_body = [], mod_docstring = [], mod_imports = []\<rparr>),
      analyze_python_file_with_jedi = (\<lambda>p u. None), create_conversation = Inr (),
      add_messages_with_indexing = (\<lambda>n b. Inr (0, length b)), cancel_event = None\<rparr>"

text \<open>Worlds in which the traversal of the tree raises, and in which opening the conversation raises.\<close>

definition denied_world :: world where
  "denied_world = quiet_world\<lparr>rglob := Inl ''Permission denied''\<rparr>"

definition index_failure_world :: world where
  "index_failure_world = quiet_world\<lparr>create_conversation := Inl ''database is locked''\<rparr>"






section \<open>Properties of discovery\<close>

lemma discover_loop_subset:
  "r \<in> set (discover_loop excludes es) \<Longrightarrow>
     \<not> list_ex (\<lambda>excl. excl \<in> set (path r)) excludes
     \<and> (suffix (path r) \<in> set PYTHON_EXTS \<longrightarrow> kind r = python)"
  by (induction es) (auto split: if_splits)

text \<open>
  C7: whatever the listing and the extra exclusions, no returned file has a path component
  that is one of the fixed exclusion names or one of \<open>extra_excludes\<close>.
\<close>

theorem discover_files_excludes:
  "\<forall>r \<in> set (discover_files listing extra_excludes).
     set (path r) \<inter> (set DEFAULT_EXCLUDE_DIRS \<union> (case extra_excludes of None \<Rightarrow> {} | Some xs \<Rightarrow> set xs)) = {}"
proof
  fix r assume "r \<in> set (discover_files listing extra_excludes)"
  then have "\<not> list_ex (\<lambda>excl. excl \<in> set (path r))
      (DEFAULT_EXCLUDE_DIRS @ (case extra_excludes of None \<Rightarrow> [] | Some xs \<Rightarrow> xs))"
    unfolding discover_files_def using discover_loop_subset by blast
  then show "set (path r) \<inter> (set DEFAULT_EXCLUDE_DIRS \<union> (case extra_excludes of None \<Rightarrow> {} | Some xs \<Rightarrow> set xs)) = {}"
    by (cases extra_excludes) (auto simp: list_ex_iff)
qed

lemma stem_suffix: "stem p @ suffix p = name p"
  by (simp add: stem_def suffix_def Let_def)

lemma take_stem: "take (length (name p) - length (suffix p)) (name p) = stem p"
proof -
  have "take (length (stem p @ suffix p) - length (suffix p)) (stem p @ suffix p) = stem p"
    by simp
  then show ?thesis by (simp only: stem_suffix)
qed

lemma join_snoc: "xs \<noteq> [] \<Longrightarrow> join sep (xs @ [x]) = join sep xs @ sep @ x"
  by (induction sep xs rule: join.induct) auto

lemma replace_sep_append: "replace_sep (a @ b) = replace_sep a @ replace_sep b"
  by (simp add: replace_sep_def)

lemma replace_sep_id: "CHR ''/'' \<notin> set s \<Longrightarrow> replace_sep s = s"
  by (induction s) (auto simp: replace_sep_def)

lemma replace_sep_join:
  "\<forall>p \<in> set xs. CHR ''/'' \<notin> set p \<Longrightarrow> replace_sep (join ''/'' xs) = join ''.'' xs"
  by (induction "''/''" xs rule: join.induct) (auto simp: replace_sep_append replace_sep_id, simp add: replace_sep_def)

lemma name_snoc: "x \<noteq> ''/'' \<Longrightarrow> name (xs @ [x]) = x"
  by (auto simp: name_def)

lemma drop_extension_snoc:
  assumes "x \<noteq> ''/''"
  shows "drop_extension (xs @ [x]) = join ''/'' (xs @ [stem (xs @ [x])])"
proof -
  have nm: "name (xs @ [x]) = x" using assms by (rule name_snoc)
  have x: "x = stem (xs @ [x]) @ suffix (xs @ [x])" using stem_suffix [of "xs @ [x]"] nm by simp
  show ?thesis
  proof (cases "xs = []")
    case True
    have "take (length x - length (suffix [x])) x = stem [x]"
      using take_stem [of "[x]"] nm True by simp
    then show ?thesis using True by (simp add: drop_extension_def)
  next
    case False
    let ?s = "stem (xs @ [x])" and ?e = "suffix (xs @ [x])"
    have j: "join ''/'' (xs @ [x]) = (join ''/'' xs @ ''/'' @ ?s) @ ?e"
      using False x by (simp add: join_snoc)
    have "take (length ((join ''/'' xs @ ''/'' @ ?s) @ ?e) - length ?e) ((join ''/'' xs @ ''/'' @ ?s) @ ?e)
        = join ''/'' xs @ ''/'' @ ?s"
      by simp
    then have "take (length (join ''/'' (xs @ [x])) - length ?e) (join ''/'' (xs @ [x]))
        = join ''/'' xs @ ''/'' @ ?s"
      unfolding j .
    then show ?thesis using False by (simp add: drop_extension_def join_snoc Let_def)
  qed
qed

lemma stem_no_sep: "CHR ''/'' \<notin> set (name p) \<Longrightarrow> CHR ''/'' \<notin> set (stem p)"
  by (auto simp: stem_def Let_def dest: in_set_takeD)

text \<open>
  C5, as amended: for a file under the root, the module path is the root-relative path
  with the extension dropped and the separators replaced by dots, and for a package
  marker below the root the filename segment is dropped, so that the path names the
  enclosing directory. For a package marker directly at the root the module path is the
  stem \<open>__init__\<close> itself.
\<close>

theorem compute_module_path_spec:
  assumes rel: "relative_to fp repo_path = Inr rel"
    and ne: "rel \<noteq> []"
    and sep: "\<forall>part \<in> set rel. CHR ''/'' \<notin> set part"
  shows "compute_module_path fp repo_path =
     Inr (if stem rel = ''__init__'' \<and> butlast rel = [] then ''__init__''
          else spec_module_path rel)"
proof -
  obtain ds x where r: "rel = ds @ [x]" using ne by (metis rev_exhaust)
  have x: "x \<noteq> ''/''" "CHR ''/'' \<notin> set x" using sep r by auto
  have ds: "\<forall>p \<in> set ds. CHR ''/'' \<notin> set p" using sep r by auto
  have st: "CHR ''/'' \<notin> set (stem rel)" using x r by (simp add: stem_no_sep name_snoc)
  show ?thesis
  proof (cases "stem rel = ''__init__''")
    case True
    then show ?thesis using rel r ds
      by (auto simp: compute_module_path_def spec_module_path_def replace_sep_join)
  next
    case False
    have "replace_sep (drop_extension rel) = join ''.'' (ds @ [stem rel])"
      using drop_extension_snoc [OF x(1), of ds] r ds st by (simp add: replace_sep_join)
    then show ?thesis using rel r False
      by (simp add: compute_module_path_def spec_module_path_def)
  qed
qed

theorem compute_module_path_spec_witness:
  "compute_module_path [''/'', ''repo'', ''pkg'', ''mod.py''] [''/'', ''repo''] = Inr ''pkg.mod''
   \<and> compute_module_path [''/'', ''repo'', ''pkg'', ''__init__.py''] [''/'', ''repo''] = Inr ''pkg''"
  using compute_module_path_spec [of "[''/'', ''repo'', ''pkg'', ''mod.py'']" "[''/'', ''repo'']" "[''pkg'', ''mod.py'']"]
    compute_module_path_spec [of "[''/'', ''repo'', ''pkg'', ''__init__.py'']" "[''/'', ''repo'']" "[''pkg'', ''__init__.py'']"]
  by (simp add: spec_module_path_def stem_def name_def Let_def replace_sep_def drop_extension_def suffix_def)

text \<open>
  C5 as stated fails for \<open>__init__.py\<close> directly at the root: the filename segment is
  not dropped, the module path is \<open>__init__\<close> and not the (empty) name of the root.
\<close>

theorem root_marker_counterexample:
  "compute_module_path [''/'', ''repo'', ''__init__.py''] [''/'', ''repo''] = Inr ''__init__''
   \<and> compute_module_path [''/'', ''repo'', ''__init__.py''] [''/'', ''repo'']
       \<noteq> Inr (spec_module_path [''__init__.py''])"
  by (simp add: compute_module_path_def spec_module_path_def stem_def name_def Let_def replace_sep_def)

lemma discover_loop_python_mem:
  "e \<in> set es \<Longrightarrow> \<not> list_ex (\<lambda>excl. excl \<in> set (entry_path e)) excludes \<Longrightarrow> is_file e \<Longrightarrow>
   suffix (entry_path e) \<in> set PYTHON_EXTS \<Longrightarrow>
   \<lparr>path = entry_path e, kind = python\<rparr> \<in> set (discover_loop excludes es)"
  by (induction es) auto

text \<open>
  C10: a file whose name is in the configuration table and whose extension is the source
  extension (\<open>setup.py\<close>) is returned with kind \<open>python\<close>, and with no other kind: the
  source extension is tested first.
\<close>

theorem source_extension_wins:
  assumes "e \<in> set listing"
    and "is_file e"
    and "set (entry_path e) \<inter> set (DEFAULT_EXCLUDE_DIRS @ (case extra_excludes of None \<Rightarrow> [] | Some xs \<Rightarrow> xs)) = {}"
    and "name (entry_path e) \<in> set CONFIG_FILES"
    and "suffix (entry_path e) \<in> set PYTHON_EXTS"
  shows "\<lparr>path = entry_path e, kind = python\<rparr> \<in> set (discover_files listing extra_excludes)
    \<and> \<lparr>path = entry_path e, kind = configuration\<rparr> \<notin> set (discover_files listing extra_excludes)
    \<and> \<lparr>path = entry_path e, kind = documentation\<rparr> \<notin> set (discover_files listing extra_excludes)
    \<and> list_all (\<lambda>r. path r = entry_path e \<longrightarrow> kind r = python)
          (discover_files listing extra_excludes)"
proof -
  have "\<not> list_ex (\<lambda>excl. excl \<in> set (entry_path e))
      (DEFAULT_EXCLUDE_DIRS @ (case extra_excludes of None \<Rightarrow> [] | Some xs \<Rightarrow> xs))"
    using assms(3) by (auto simp: list_ex_iff)
  then have "\<lparr>path = entry_path e, kind = python\<rparr> \<in> set (discover_files listing extra_excludes)"
    unfolding discover_files_def using assms by (intro discover_loop_python_mem) auto
  moreover have "\<lparr>path = entry_path e, kind = k\<rparr> \<in> set (discover_files listing extra_excludes) \<Longrightarrow> k = python" for k
    unfolding discover_files_def using discover_loop_subset [of "\<lparr>path = entry_path e, kind = k\<rparr>"] assms(5)
    by auto
  moreover have "list_all (\<lambda>r. path r = entry_path e \<longrightarrow> kind r = python)
      (discover_files listing extra_excludes)"
    unfolding discover_files_def list_all_iff using discover_loop_subset assms(5) by metis
  ultimately show ?thesis by blast
qed

theorem source_extension_wins_witness:
  "\<lparr>path = [''/'', ''repo'', ''setup.py''], kind = python\<rparr> \<in> set (discover_files setup_py_listing None)
    \<and> \<lparr>path = [''/'', ''repo'', ''setup.py''], kind = configuration\<rparr> \<notin> set (discover_files setup_py_listing None)"
  using source_extension_wins [of "\<lparr>entry_path = [''/'', ''repo'', ''setup.py''], is_file = True\<rparr>" setup_py_listing None]
  by (simp add: setup_py_listing_def DEFAULT_EXCLUDE_DIRS_def CONFIG_FILES_def PYTHON_EXTS_def
      name_def suffix_def Let_def)

theorem discover_files_excludes_witness:
  "discover_files setup_py_listing (Some [''tmp'']) = [\<lparr>path = [''/'', ''repo'', ''setup.py''], kind = python\<rparr>]
   \<and> set [''/'', ''repo'', ''setup.py''] \<inter> (set DEFAULT_EXCLUDE_DIRS \<union> set [''tmp'']) = {}"
  using discover_files_excludes [of setup_py_listing "Some [''tmp'']"]
  by (simp add: setup_py_listing_def discover_files_def DEFAULT_EXCLUDE_DIRS_def PYTHON_EXTS_def
      name_def suffix_def Let_def)

section \<open>Properties of the extractor\<close>

text \<open>
  C1 fails on \<^verbatim>\<open>def f(a, *args, b): pass\<close>: the keyword-only group and its separator
  are rendered before the variadic-positional parameter, which the source declares first.
\<close>

theorem signature_order_varargs_kwonly:
  "fn_parameters (function_entity def_f_a_args_b) = [''a'', ''*'', ''b'', ''*args'']
   \<and> fn_signature (function_entity def_f_a_args_b) = ''def f(a, *, b, *args)''
   \<and> declared_order (fd_params def_f_a_args_b) = [''a'', ''*args'', ''b'']"
  by (simp add: function_entity_def def_f_a_args_b_def build_params_def declared_order_def
      render_annotation_def Let_def)

text \<open>
  C2 fails on a class whose method defines a local function: the local function is
  appended to the methods of the class, next to the method that contains it.
\<close>

theorem nested_helper_attributed_to_class:
  "map (\<lambda>c. (cls_name c, map fn_name (cls_methods c)))
       (classes (visit_all class_with_helper (PythonExtractor_init ''mod'')))
     = [(''A'', [''m'', ''helper''])]
   \<and> direct_defs_all [FunctionDef (simple_def ''m'') [FunctionDef (simple_def ''helper'') []]] = [''m'']"
  by (simp add: class_with_helper_def PythonExtractor_init_def visit_ClassDef_def
      visit_FunctionDef_def leave_ClassDef_def leave_FunctionDef_def class_entity_def
      function_entity_def simple_def_def class_A_def Let_def build_params_def render_annotation_def)

text \<open>
  C3: for a function and for a class, a body of exactly 10000 characters is stored as it
  is; a body of 10001 characters or more is stored as its first 10000 characters followed
  by the marker, so its length is 10000 plus the length of the marker.
\<close>

theorem body_truncation_boundary:
  "(length (fd_code f) = 10000 \<longrightarrow> fn_code_body (function_entity f) = fd_code f)
   \<and> (10001 \<le> length (fd_code f) \<longrightarrow>
        fn_code_body (function_entity f) = take 10000 (fd_code f) @ [CHR 0x0A] @ ''... (truncated)''
        \<and> length (fn_code_body (function_entity f)) = 10000 + length ([CHR 0x0A] @ ''... (truncated)''))
   \<and> (length (cd_code c) = 10000 \<longrightarrow> cls_code_body (class_entity c) = cd_code c)
   \<and> (10001 \<le> length (cd_code c) \<longrightarrow>
        cls_code_body (class_entity c) = take 10000 (cd_code c) @ [CHR 0x0A] @ ''... (truncated)''
        \<and> length (cls_code_body (class_entity c)) = 10000 + length ([CHR 0x0A] @ ''... (truncated)''))"
  by (simp add: function_entity_def class_entity_def Let_def)

theorem body_truncation_boundary_witness:
  "fn_code_body (function_entity (long_def 10000)) = replicate 10000 CHR ''x''
   \<and> cls_code_body (class_entity (long_class 10001))
       = replicate 10000 CHR ''x'' @ [CHR 0x0A] @ ''... (truncated)''
   \<and> length (cls_code_body (class_entity (long_class 10001))) = 10016
   \<and> cls_code_body (class_entity (long_class 10000)) = replicate 10000 CHR ''x''
   \<and> fn_code_body (function_entity (long_def 10001))
       = replicate 10000 CHR ''x'' @ [CHR 0x0A] @ ''... (truncated)''
   \<and> length (fn_code_body (function_entity (long_def 10001))) = 10016"
  using body_truncation_boundary [of "long_def 10000" "long_class 10001"]
    body_truncation_boundary [of "long_def 10001" "long_class 10000"]
  by (simp add: long_def_def long_class_def simple_def_def class_A_def)

section \<open>Properties of chunk assembly\<close>







section \<open>Properties of the orchestrator\<close>

text \<open>
  C8: when the cancellation event is not set at the poll before discovery and is set at
  the poll after it, the run yields the two discovery events and nothing else: no event of
  type analysis, message creation or indexing, and no batch is appended.
\<close>

theorem cancel_after_discovery:
  assumes "path_exists w" and "rglob w = Inr listing" and "cancel_event w = Some is_set"
    and "\<not> is_set 0" and "is_set 1"
  shows "events (run_ingestion w repo_path)
      = [IngestionProgress ''discovery'' \<lparr>status = active, progress = 0\<rparr>,
         IngestionProgress ''discovery'' \<lparr>status = complete, progress = 100\<rparr>]
    \<and> filter (\<lambda>ev. event_stage ev \<in> {Some ''type_analysis'', Some ''message_creation'', Some ''indexing''})
         (events (run_ingestion w repo_path)) = []
    \<and> appended (run_ingestion w repo_path) = []"
  using assms
  by (simp add: run_ingestion_def run_body_def stage_discovery_def then_do_def is_cancelled_def
      emit_def Let_def event_stage_def)

theorem cancel_after_discovery_witness:
  "events (run_ingestion (quiet_world\<lparr>cancel_event := Some (\<lambda>n. 0 < n)\<rparr>) [''/'', ''repo''])
      = [IngestionProgress ''discovery'' \<lparr>status = active, progress = 0\<rparr>,
         IngestionProgress ''discovery'' \<lparr>status = complete, progress = 100\<rparr>]
   \<and> appended (run_ingestion (quiet_world\<lparr>cancel_event := Some (\<lambda>n. 0 < n)\<rparr>) [''/'', ''repo'']) = []"
  using cancel_after_discovery [of "quiet_world\<lparr>cancel_event := Some (\<lambda>n. 0 < n)\<rparr>" "[]" "\<lambda>n. 0 < n" "[''/'', ''repo'']"]
  by (simp add: quiet_world_def)

lemma error_events_emit_progress [simp]:
  "error_events (emit (IngestionProgress s x) st) = error_events st"
  by (simp add: error_events_def emit_def is_error_def)

lemma error_events_emit_complete [simp]:
  "error_events (emit (IngestionComplete r) st) = error_events st"
  by (simp add: error_events_def emit_def is_error_def)

lemma error_events_is_cancelled [simp]:
  "error_events (snd (is_cancelled w st)) = error_events st"
  by (simp add: error_events_def is_cancelled_def split: option.splits)

lemma error_events_appended [simp]:
  "error_events (st\<lparr>appended := a\<rparr>) = error_events st"
  by (simp add: error_events_def)

lemma error_events_then_do:
  assumes "error_events (snd m) = es" and "\<And>x s. error_events (snd (f x s)) = error_events s"
  shows "error_events (snd (then_do m f)) = es"
proof (cases m)
  case (Pair r st)
  then show ?thesis using assms by (cases r) (simp_all add: then_do_def)
qed

lemma error_events_stage_discovery:
  "error_events (snd (stage_discovery w st)) = error_events st"
proof -
  obtain c st' where c: "is_cancelled w (emit (IngestionProgress ''discovery'' \<lparr>status = active, progress = 0\<rparr>) st) = (c, st')"
    by (cases "is_cancelled w (emit (IngestionProgress ''discovery'' \<lparr>status = active, progress = 0\<rparr>) st)")
  have "error_events st' = error_events st"
    using error_events_is_cancelled [of w "emit (IngestionProgress ''discovery'' \<lparr>status = active, progress = 0\<rparr>) st"] c
    by simp
  then show ?thesis using c
    by (simp add: stage_discovery_def Let_def split: sum.splits)
qed

lemma error_events_parsing_loop:
  "error_events (snd (parsing_loop w n i rs ap fl st)) = error_events st"
proof (induction rs arbitrary: i ap fl st)
  case Nil
  then show ?case by simp
next
  case (Cons a rs)
  obtain fp result where a: "a = (fp, result)" by (cases a)
  obtain c st' where c: "is_cancelled w st = (c, st')" by (cases "is_cancelled w st")
  have st': "error_events st' = error_events st"
    using error_events_is_cancelled [of w st] c by simp
  show ?case using a c st' Cons.IH
    by (simp add: Let_def)
qed

lemma error_events_stage_parsing:
  "error_events (snd (stage_parsing w repo_path files st)) = error_events st"
  unfolding stage_parsing_def Let_def
  by (rule error_events_then_do) (simp_all add: error_events_parsing_loop split: prod.splits)

lemma error_events_type_analysis_loop:
  "error_events (snd (type_analysis_loop w n i rs acc st)) = error_events st"
proof (induction rs arbitrary: i acc st)
  case Nil
  then show ?case by simp
next
  case (Cons a rs)
  obtain c st' where c: "is_cancelled w st = (c, st')" by (cases "is_cancelled w st")
  have st': "error_events st' = error_events st"
    using error_events_is_cancelled [of w st] c by simp
  show ?case using c st' Cons.IH
    by (simp add: Let_def)
qed

lemma error_events_stage_type_analysis:
  "error_events (snd (stage_type_analysis w all_parsed st)) = error_events st"
proof (cases "all_parsed = []")
  case True
  then show ?thesis by (simp add: stage_type_analysis_def)
next
  case False
  obtain c st' where c: "is_cancelled w st = (c, st')" by (cases "is_cancelled w st")
  have st': "error_events st' = error_events st"
    using error_events_is_cancelled [of w st] c by simp
  show ?thesis
  proof (cases c)
    case True
    then show ?thesis using False c st' by (simp add: stage_type_analysis_def)
  next
    case nc: False
    have "error_events (snd (then_do
            (type_analysis_loop w (length all_parsed) 0
               (map (\<lambda>(fp, parsed). analyze_python_file_with_jedi w fp parsed) all_parsed) []
               (emit (IngestionProgress ''type_analysis'' \<lparr>status = active, progress = 0\<rparr>) st'))
            (\<lambda>all_jedi_analyses st.
               (Next all_jedi_analyses,
                emit (IngestionProgress ''type_analysis'' \<lparr>status = complete, progress = 100\<rparr>) st))))
          = error_events st"
      by (rule error_events_then_do) (simp_all add: error_events_type_analysis_loop st')
    then show ?thesis using False c nc by (simp add: stage_type_analysis_def Let_def)
  qed
qed

lemma error_events_python_messages_loop:
  "error_events (snd (python_messages_loop w pn n tot rs processed acc st)) = error_events st"
proof (induction rs arbitrary: processed acc st)
  case Nil
  then show ?case by simp
next
  case (Cons a rs)
  obtain fp parsed j where a: "a = ((fp, parsed), j)" by (cases a) auto
  obtain c st' where c: "is_cancelled w st = (c, st')" by (cases "is_cancelled w st")
  have st': "error_events st' = error_events st"
    using error_events_is_cancelled [of w st] c by simp
  show ?case using a c st' Cons.IH
    by (simp add: Let_def)
qed

lemma error_events_text_files_loop:
  "error_events (snd (text_files_loop w repo_path pn fs acc st)) = error_events st"
proof (induction fs arbitrary: acc st)
  case Nil
  then show ?case by simp
next
  case (Cons f fs)
  obtain c st' where c: "is_cancelled w st = (c, st')" by (cases "is_cancelled w st")
  have st': "error_events st' = error_events st"
    using error_events_is_cancelled [of w st] c by simp
  show ?case using c st' Cons.IH
    by (simp add: Let_def)
qed

lemma error_events_stage_message_creation:
  "error_events (snd (stage_message_creation w repo_path pn files all_parsed js st)) = error_events st"
proof -
  obtain c st' where c: "is_cancelled w st = (c, st')" by (cases "is_cancelled w st")
  have st': "error_events st' = error_events st"
    using error_events_is_cancelled [of w st] c by simp
  show ?thesis
  proof (cases c)
    case True
    then show ?thesis using c st' by (simp add: stage_message_creation_def)
  next
    case False
    let ?st = "emit (IngestionProgress ''message_creation'' \<lparr>status = active, progress = 0\<rparr>) st'"
    let ?total = "length all_parsed
                  + length (filter (\<lambda>f. kind f = documentation \<or> kind f = configuration) files)"
    have inner: "error_events (snd (then_do (text_files_loop w repo_path pn files msgs s)
            (\<lambda>all_messages st.
               (Next all_messages,
                emit (IngestionProgress ''message_creation'' \<lparr>status = complete, progress = 100\<rparr>) st))))
          = error_events s" for msgs s
      by (rule error_events_then_do) (simp_all add: error_events_text_files_loop)
    have "error_events (snd (then_do
            (python_messages_loop w pn (length all_parsed) ?total (zip all_parsed js) 0 [] ?st)
            (\<lambda>(processed, all_messages) st.
               then_do (text_files_loop w repo_path pn files all_messages st)
                 (\<lambda>all_messages st.
                    (Next all_messages,
                     emit (IngestionProgress ''message_creation'' \<lparr>status = complete, progress = 100\<rparr>) st)))))
          = error_events st"
      by (rule error_events_then_do)
        (simp_all add: error_events_python_messages_loop st' inner split: prod.splits)
    then show ?thesis using c False by (simp add: stage_message_creation_def Let_def)
  qed
qed

lemma error_events_indexing_loop:
  "error_events (snd (indexing_loop w tb bn remaining sr mt st)) = error_events st"
proof (induction w tb bn remaining sr mt st rule: indexing_loop.induct)
  case (1 w tb bn remaining sr mt st)
  show ?case
  proof (cases "remaining = []")
    case True
    then show ?thesis by (simp add: indexing_loop.simps)
  next
    case False
    obtain c st' where c: "is_cancelled w st = (c, st')" by (cases "is_cancelled w st")
    have st': "error_events st' = error_events st"
      using error_events_is_cancelled [of w st] c by simp
    show ?thesis
    proof (cases c)
      case True
      then show ?thesis using False c st'
        by (subst indexing_loop.simps) simp
    next
      case nc: False
      let ?batch = "take 50 remaining"
      let ?st1 = "emit (IngestionProgress ''indexing''
                    \<lparr>status = active, progress = (real bn - 1) / real tb * 100\<rparr>) st'"
      let ?st2 = "?st1\<lparr>appended := appended ?st1 @ [?batch]\<rparr>"
      show ?thesis
      proof (cases "add_messages_with_indexing w bn ?batch")
        case (Inl e)
        then show ?thesis using False c nc st'
          by (subst indexing_loop.simps) (simp add: Let_def)
      next
        case (Inr r)
        obtain a b where r: "r = (a, b)" by (cases r)
        have "error_events (snd (indexing_loop w tb (bn + 1) (drop 50 remaining) (sr + a) (mt + b)
                (emit (IngestionProgress ''indexing''
                    \<lparr>status = active, progress = real bn / real tb * 100\<rparr>) ?st2)))
              = error_events (emit (IngestionProgress ''indexing''
                    \<lparr>status = active, progress = real bn / real tb * 100\<rparr>) ?st2)"
          using "1.IH" [OF False refl c [symmetric] nc refl refl refl Inr r [symmetric] refl refl refl] .
        then show ?thesis using False c nc st' Inr r
          by (subst indexing_loop.simps) (simp add: Let_def)
      qed
    qed
  qed
qed


lemma error_events_stage_indexing:
  "error_events (snd (stage_indexing w files all_parsed fl msgs st)) = error_events st"
proof (cases "create_conversation w")
  case (Inl e)
  then show ?thesis by (simp add: stage_indexing_def Let_def)
next
  case (Inr u)
  show ?thesis unfolding stage_indexing_def Let_def
    by (simp only: Inr sum.case)
      (rule error_events_then_do, simp_all add: error_events_indexing_loop split: prod.splits)
qed

lemma error_events_after_discovery:
  "error_events (snd (
      let (cancelled, st) = is_cancelled w s
      in if cancelled then (Return, st)
         else
           then_do (stage_parsing w repo_path files st)
             (\<lambda>(all_parsed, failures) st.
                then_do (stage_type_analysis w all_parsed st)
                  (\<lambda>all_jedi_analyses st.
                     then_do (stage_message_creation w repo_path project_name files
                                all_parsed all_jedi_analyses st)
                       (\<lambda>all_messages st.
                          let (cancelled, st) = is_cancelled w st
                          in if cancelled then (Return, st)
                             else stage_indexing w files all_parsed failures
                                    all_messages st))))) = error_events s"
proof -
  have last: "error_events (snd (let (cancelled, st) = is_cancelled w s1
                          in if cancelled then (Return, st)
                             else stage_indexing w files ap fl msgs st)) = error_events s1"
    for s1 ap fl msgs
  proof -
    obtain c st' where c: "is_cancelled w s1 = (c, st')" by (cases "is_cancelled w s1")
    have "error_events st' = error_events s1"
      using error_events_is_cancelled [of w s1] c by simp
    then show ?thesis using c by (simp add: error_events_stage_indexing)
  qed
  have msg: "error_events (snd (then_do (stage_message_creation w repo_path project_name files ap js s1)
                       (\<lambda>all_messages st.
                          let (cancelled, st) = is_cancelled w st
                          in if cancelled then (Return, st)
                             else stage_indexing w files ap fl all_messages st))) = error_events s1"
    for s1 ap fl js
    by (rule error_events_then_do) (simp_all only: error_events_stage_message_creation last)
  have ta: "error_events (snd (then_do (stage_type_analysis w ap s1)
                  (\<lambda>all_jedi_analyses st.
                     then_do (stage_message_creation w repo_path project_name files
                                ap all_jedi_analyses st)
                       (\<lambda>all_messages st.
                          let (cancelled, st) = is_cancelled w st
                          in if cancelled then (Return, st)
                             else stage_indexing w files ap fl all_messages st)))) = error_events s1"
    for s1 ap fl
    by (rule error_events_then_do) (simp_all only: error_events_stage_type_analysis msg)
  have pa: "error_events (snd (then_do (stage_parsing w repo_path files s1)
             (\<lambda>(all_parsed, failures) st.
                then_do (stage_type_analysis w all_parsed st)
                  (\<lambda>all_jedi_analyses st.
                     then_do (stage_message_creation w repo_path project_name files
                                all_parsed all_jedi_analyses st)
                       (\<lambda>all_messages st.
                          let (cancelled, st) = is_cancelled w st
                          in if cancelled then (Return, st)
                             else stage_indexing w files all_parsed failures
                                    all_messages st))))) = error_events s1"
    for s1
    by (rule error_events_then_do) (simp_all only: error_events_stage_parsing ta split: prod.splits, simp add: ta)
  obtain c st' where c: "is_cancelled w s = (c, st')" by (cases "is_cancelled w s")
  have "error_events st' = error_events s"
    using error_events_is_cancelled [of w s] c by simp
  then show ?thesis using c pa by simp
qed

lemma error_events_run_body:
  assumes "path_exists w"
  shows "error_events (snd (run_body w repo_path st)) = error_events st"
  using assms unfolding run_body_def Let_def
  by (simp only: if_False not_True_eq_False simp_thms)
    (rule error_events_then_do,
      simp_all only: error_events_stage_discovery error_events_after_discovery [unfolded Let_def])

text \<open>
  C4, as amended: when an exception leaves the body of the run, the run yields exactly one
  error event, after everything yielded before; the event carries the text of the
  exception and the fixed stage label \<open>unknown\<close>; nothing follows it and no further
  batch is appended.
\<close>

theorem exception_yields_one_unknown_error:
  assumes "run_body w repo_path init_state = (Raise e, st)"
  shows "events (run_ingestion w repo_path) = events st @ [IngestionError e ''unknown'']
    \<and> error_events (run_ingestion w repo_path) = [IngestionError e ''unknown'']
    \<and> appended (run_ingestion w repo_path) = appended st"
proof -
  have ex: "path_exists w"
    using assms by (auto simp: run_body_def split: if_splits)
  have "error_events st = error_events init_state"
    using error_events_run_body [OF ex, of repo_path init_state] assms by simp
  then have quiet: "filter is_error (events st) = []"
    by (simp add: error_events_def init_state_def)
  have run: "run_ingestion w repo_path = emit (IngestionError e ''unknown'') st"
    using assms by (simp add: run_ingestion_def init_state_def)
  show ?thesis using quiet
    by (simp add: run emit_def error_events_def is_error_def)
qed

theorem exception_yields_one_unknown_error_witness:
  "events (run_ingestion denied_world [''/'', ''repo''])
     = [IngestionProgress ''discovery'' \<lparr>status = active, progress = 0\<rparr>,
        IngestionError ''Permission denied'' ''unknown'']
   \<and> error_events (run_ingestion denied_world [''/'', ''repo''])
     = [IngestionError ''Permission denied'' ''unknown'']"
proof -
  have "run_body denied_world [''/'', ''repo''] init_state
      = (Raise ''Permission denied'',
         \<lparr>events = [IngestionProgress ''discovery'' \<lparr>status = active, progress = 0\<rparr>],
          polls = 0, appended = []\<rparr>)"
    by (simp add: run_body_def denied_world_def quiet_world_def init_state_def
        stage_discovery_def is_cancelled_def emit_def then_do_def Let_def)
  from exception_yields_one_unknown_error [OF this] show ?thesis by simp
qed

text \<open>
  C4 as stated fails when opening the conversation raises in the indexing stage: the error
  event names the stage \<open>unknown\<close>, not \<open>indexing\<close>.
\<close>

theorem error_stage_counterexample:
  "events (run_ingestion index_failure_world [''/'', ''repo''])
     = [IngestionProgress ''discovery'' \<lparr>status = active, progress = 0\<rparr>,
        IngestionProgress ''discovery'' \<lparr>status = complete, progress = 100\<rparr>,
        IngestionProgress ''parsing'' \<lparr>status = active, progress = 0\<rparr>,
        IngestionProgress ''parsing'' \<lparr>status = complete, progress = 100\<rparr>,
        IngestionProgress ''message_creation'' \<lparr>status = active, progress = 0\<rparr>,
        IngestionProgress ''message_creation'' \<lparr>status = complete, progress = 100\<rparr>,
        IngestionProgress ''indexing'' \<lparr>status = active, progress = 0\<rparr>,
        IngestionError ''database is locked'' ''unknown'']
   \<and> IngestionError ''database is locked'' ''indexing''
       \<notin> set (events (run_ingestion index_failure_world [''/'', ''repo'']))"
  by (simp add: run_ingestion_def run_body_def index_failure_world_def quiet_world_def
      stage_discovery_def stage_parsing_def stage_type_analysis_def stage_message_creation_def
      stage_indexing_def is_cancelled_def emit_def then_do_def Let_def discover_files_def)

section \<open>Module paths within a run\<close>















end
